theory Spec2Isabelle
  imports Complex_Main
begin

section \<open>Numbers\<close>

text \<open>
  The program computes with Python floats. A float is modelled as a finite real, NaN or
  one of the two infinities; finite arithmetic is exact (rounding and overflow of
  IEEE doubles are not modelled), the special values behave as IEEE-754 says.
\<close>

datatype pyfloat = Fin real | NaN | PInf | NInf

text \<open>Comparison: every comparison with NaN is false.\<close>

fun fl_le :: "pyfloat \<Rightarrow> pyfloat \<Rightarrow> bool" where
  "fl_le NaN _ = False"
| "fl_le _ NaN = False"
| "fl_le (Fin a) (Fin b) = (a \<le> b)"
| "fl_le NInf _ = True"
| "fl_le _ PInf = True"
| "fl_le PInf _ = False"
| "fl_le _ NInf = False"

fun fl_lt :: "pyfloat \<Rightarrow> pyfloat \<Rightarrow> bool" where
  "fl_lt NaN _ = False"
| "fl_lt _ NaN = False"
| "fl_lt (Fin a) (Fin b) = (a < b)"
| "fl_lt PInf _ = False"
| "fl_lt _ NInf = False"
| "fl_lt NInf _ = True"
| "fl_lt _ PInf = True"

definition fl_ge :: "pyfloat \<Rightarrow> pyfloat \<Rightarrow> bool" where
  "fl_ge a b = fl_le b a"

definition fl_gt :: "pyfloat \<Rightarrow> pyfloat \<Rightarrow> bool" where
  "fl_gt a b = fl_lt b a"


text \<open>Arithmetic on floats, with the IEEE special cases (the sign of zero is not modelled).\<close>

fun fl_neg :: "pyfloat \<Rightarrow> pyfloat" where
  "fl_neg (Fin a) = Fin (- a)"
| "fl_neg NaN = NaN"
| "fl_neg PInf = NInf"
| "fl_neg NInf = PInf"

fun fl_add :: "pyfloat \<Rightarrow> pyfloat \<Rightarrow> pyfloat" where
  "fl_add NaN _ = NaN"
| "fl_add _ NaN = NaN"
| "fl_add (Fin a) (Fin b) = Fin (a + b)"
| "fl_add PInf NInf = NaN"
| "fl_add NInf PInf = NaN"
| "fl_add PInf _ = PInf"
| "fl_add _ PInf = PInf"
| "fl_add NInf _ = NInf"
| "fl_add _ NInf = NInf"

definition fl_sub :: "pyfloat \<Rightarrow> pyfloat \<Rightarrow> pyfloat" where
  "fl_sub a b = fl_add a (fl_neg b)"

definition inf_of_sign :: "real \<Rightarrow> pyfloat" where
  "inf_of_sign a = (if a = 0 then NaN else if 0 < a then PInf else NInf)"

fun fl_mul :: "pyfloat \<Rightarrow> pyfloat \<Rightarrow> pyfloat" where
  "fl_mul NaN _ = NaN"
| "fl_mul _ NaN = NaN"
| "fl_mul (Fin a) (Fin b) = Fin (a * b)"
| "fl_mul (Fin a) PInf = inf_of_sign a"
| "fl_mul (Fin a) NInf = inf_of_sign (- a)"
| "fl_mul PInf (Fin b) = inf_of_sign b"
| "fl_mul NInf (Fin b) = inf_of_sign (- b)"
| "fl_mul PInf PInf = PInf"
| "fl_mul NInf NInf = PInf"
| "fl_mul PInf NInf = NInf"
| "fl_mul NInf PInf = NInf"

text \<open>Division as numpy does it: a finite non-zero value divided by zero is an infinity.\<close>

fun fl_div :: "pyfloat \<Rightarrow> pyfloat \<Rightarrow> pyfloat" where
  "fl_div NaN _ = NaN"
| "fl_div _ NaN = NaN"
| "fl_div (Fin a) (Fin b) = (if b = 0 then inf_of_sign a else Fin (a / b))"
| "fl_div (Fin a) _ = Fin 0"
| "fl_div PInf (Fin b) = (if 0 \<le> b then PInf else NInf)"
| "fl_div NInf (Fin b) = (if 0 \<le> b then NInf else PInf)"
| "fl_div _ _ = NaN"

fun fl_sqrt :: "pyfloat \<Rightarrow> pyfloat" where
  "fl_sqrt (Fin a) = (if a < 0 then NaN else Fin (sqrt a))"
| "fl_sqrt PInf = PInf"
| "fl_sqrt _ = NaN"

fun fl_sin :: "pyfloat \<Rightarrow> pyfloat" where
  "fl_sin (Fin a) = Fin (sin a)"
| "fl_sin _ = NaN"

fun fl_cos :: "pyfloat \<Rightarrow> pyfloat" where
  "fl_cos (Fin a) = Fin (cos a)"
| "fl_cos _ = NaN"

text \<open>\<^verbatim>\<open>np.radians\<close>, and \<^verbatim>\<open>np.mean\<close> and \<^verbatim>\<open>np.std\<close> (the population standard
  deviation, \<^verbatim>\<open>sqrt(mean(abs(x - x.mean())**2))\<close>) of a list.\<close>

definition np_radians :: "pyfloat \<Rightarrow> pyfloat" where
  "np_radians d = fl_mul d (Fin (pi / 180))"

definition fl_sum :: "pyfloat list \<Rightarrow> pyfloat" where
  "fl_sum xs = foldr fl_add xs (Fin 0)"

definition np_mean :: "pyfloat list \<Rightarrow> pyfloat" where
  "np_mean xs = fl_div (fl_sum xs) (Fin (real (length xs)))"

definition np_std :: "pyfloat list \<Rightarrow> pyfloat" where
  "np_std xs =
     fl_sqrt (np_mean (map (\<lambda>x. fl_mul (fl_sub x (np_mean xs)) (fl_sub x (np_mean xs))) xs))"

section \<open>Frames\<close>

text \<open>
  A pandas Timestamp: its value (the order of timestamps) and the calendar attributes
  the program reads through \<^verbatim>\<open>.dt\<close>.
\<close>

record timestamp =
  ts_value :: int
  ts_year :: int
  ts_month :: int
  ts_day :: int
  ts_hour :: int
  ts_dayofweek :: int
  ts_dayofyear :: int

text \<open>
  A row of the weather frames (\<^verbatim>\<open>wx_df\<close>, \<^verbatim>\<open>historical_weather_df\<close>), with the columns
  of \<^verbatim>\<open>WEATHER_RENAME\<close>. Every column is present: a frame that lacks one is not
  modelled.
\<close>

record weather_row =
  time :: timestamp
  Temp :: pyfloat
  DewP :: pyfloat
  Press :: pyfloat
  WindSpeed :: pyfloat
  WindDir :: pyfloat
  Humidity :: pyfloat
  precipitation :: pyfloat
  snowfall :: pyfloat

text \<open>
  The feature functions copy a frame and add columns to it. Each is modelled by the
  function from its inputs to the columns it adds, one record per group of columns;
  the frames they receive in this program have one row.
\<close>

record time_features =
  Year :: int
  month :: int
  Day :: int
  hour :: int
  day_of_week :: int
  day_of_year :: int
  is_weekend :: int
  time_of_day :: string
  Season :: string

record weather_features =
  WinDir_U :: pyfloat
  WinDir_V :: pyfloat
  WindSpeed_Winsorized :: pyfloat
  HoursOfRain :: int
  HoursOfSnow :: int
  HoursOfRain_rolling :: int
  HoursOfSnow_rolling :: int

record rolling_features =
  pm25_roll24_mean :: pyfloat
  pm25_roll24_std :: pyfloat

record extreme_features =
  Extreme_PM25 :: string
  Extreme_Event_VMD_shift1 :: string

text \<open>
  A feature row. The lag columns \<^verbatim>\<open>pm2.5_lag{lag}\<close> are keyed by the lag. The column
  \<^verbatim>\<open>datetime\<close> is added by \<^verbatim>\<open>prepare_features\<close> only, so a row built in the loop's
  second branch has none.
\<close>

record feature_row =
  base :: weather_row
  time_cols :: time_features
  weather_cols :: weather_features
  lag_cols :: "(nat \<times> pyfloat) list"
  rolling_cols :: rolling_features
  extreme_cols :: extreme_features
  datetime :: "timestamp option"

record forecast_row =
  features :: feature_row
  PM25_pred :: pyfloat

text \<open>Positional access: \<^verbatim>\<open>df.iloc[i]\<close> raises IndexError out of bounds; \<^verbatim>\<open>tail(n)\<close>;
  the slice \<^verbatim>\<open>xs[-w:]\<close>.\<close>

definition iloc :: "'a list \<Rightarrow> nat \<Rightarrow> 'a option" where
  "iloc df i = (if i < length df then Some (df ! i) else None)"

definition tail :: "nat \<Rightarrow> 'a list \<Rightarrow> 'a list" where
  "tail n df = drop (length df - n) df"

definition slice_from_end :: "nat \<Rightarrow> 'a list \<Rightarrow> 'a list" where
  "slice_from_end w xs = (if w = 0 then xs else drop (length xs - w) xs)"

section \<open>Feature logic\<close>

definition FORECAST_HOURS :: nat where
  "FORECAST_HOURS = 72"

definition HISTORY_HOURS :: nat where
  "HISTORY_HOURS = 24"

definition get_season :: "int \<Rightarrow> string" where
  "get_season m =
     (if m \<in> set [12, 1, 2] then ''Winter''
      else if m \<in> set [3, 4, 5] then ''Spring''
      else if m \<in> set [6, 7, 8] then ''Summer''
      else ''Fall'')"

definition get_time_of_day :: "int \<Rightarrow> string" where
  "get_time_of_day h =
     (if 5 \<le> h \<and> h < 12 then ''Morning''
      else if 12 \<le> h \<and> h < 17 then ''Afternoon''
      else if 17 \<le> h \<and> h < 21 then ''Evening''
      else ''Night'')"

definition calculate_wind_components :: "pyfloat \<Rightarrow> pyfloat \<Rightarrow> pyfloat \<times> pyfloat" where
  "calculate_wind_components wind_speed wind_direction =
     (let wind_dir_rad = np_radians wind_direction;
          u = fl_mul (fl_neg wind_speed) (fl_sin wind_dir_rad);
          v = fl_mul (fl_neg wind_speed) (fl_cos wind_dir_rad)
      in (u, v))"

text \<open>
  \<^verbatim>\<open>winsorize\<close> on the one-row frames of this program: both quantiles of a single value
  are that value (NaN for a NaN, which \<^verbatim>\<open>clip\<close> ignores as a bound), so the clipped value is
  the value itself.
\<close>

definition winsorize :: "pyfloat \<Rightarrow> pyfloat" where
  "winsorize x = x"

definition calculate_hours_of_precipitation :: "pyfloat list \<Rightarrow> int" where
  "calculate_hours_of_precipitation precip_data =
     int (length (filter (\<lambda>p. fl_ge p (Fin 0.1)) precip_data))"

definition is_extreme_pm25 :: "pyfloat \<Rightarrow> string" where
  "is_extreme_pm25 pm25_value = (if fl_ge pm25_value (Fin 150) then ''Yes'' else ''No'')"

definition lag_periods :: "nat list" where
  "lag_periods = [1, 2, 3, 6, 12, 24]"

text \<open>The body of the loop of \<^verbatim>\<open>create_lag_features\<close>: the value of one lag column.\<close>

definition lag_value :: "pyfloat list \<Rightarrow> nat \<Rightarrow> pyfloat" where
  "lag_value history_pm25 lag =
     (if lag \<le> length history_pm25 then history_pm25 ! (length history_pm25 - lag)
      else if history_pm25 \<noteq> [] then history_pm25 ! 0 else NaN)"

definition create_lag_features :: "pyfloat list \<Rightarrow> (nat \<times> pyfloat) list" where
  "create_lag_features history_pm25 = map (\<lambda>lag. (lag, lag_value history_pm25 lag)) lag_periods"

definition create_rolling_features :: "pyfloat list \<Rightarrow> rolling_features" where
  "create_rolling_features history_pm25 =
     (if 0 < length history_pm25 then
        (let window_size = min 24 (length history_pm25) in
         \<lparr>pm25_roll24_mean = np_mean (slice_from_end window_size history_pm25),
          pm25_roll24_std =
            (if 1 < window_size then np_std (slice_from_end window_size history_pm25)
             else Fin 0)\<rparr>)
      else \<lparr>pm25_roll24_mean = NaN, pm25_roll24_std = NaN\<rparr>)"

definition add_time_features :: "weather_row \<Rightarrow> time_features" where
  "add_time_features df =
     \<lparr>Year = ts_year (time df), month = ts_month (time df), Day = ts_day (time df),
      hour = ts_hour (time df), day_of_week = ts_dayofweek (time df),
      day_of_year = ts_dayofyear (time df),
      is_weekend = (if 5 \<le> ts_dayofweek (time df) then 1 else 0),
      time_of_day = get_time_of_day (ts_hour (time df)),
      Season = get_season (ts_month (time df))\<rparr>"

definition add_weather_features :: "weather_row \<Rightarrow> weather_row list option \<Rightarrow> weather_features" where
  "add_weather_features df historical_weather_df =
     (let (u, v) = calculate_wind_components (WindSpeed df) (WindDir df) in
      case historical_weather_df of
        Some hw \<Rightarrow>
          (let past_24h_precip = map precipitation (tail 24 hw);
               past_24h_snow = map snowfall (tail 24 hw)
           in \<lparr>WinDir_U = u, WinDir_V = v, WindSpeed_Winsorized = winsorize (WindSpeed df),
               HoursOfRain = calculate_hours_of_precipitation past_24h_precip,
               HoursOfSnow = calculate_hours_of_precipitation past_24h_snow,
               HoursOfRain_rolling = calculate_hours_of_precipitation past_24h_precip,
               HoursOfSnow_rolling = calculate_hours_of_precipitation past_24h_snow\<rparr>)
      | None \<Rightarrow>
          (let has_rain = (if fl_gt (precipitation df) (Fin 0.1) then 1 else 0);
               has_snow = (if fl_gt (snowfall df) (Fin 0.1) then 1 else 0)
           in \<lparr>WinDir_U = u, WinDir_V = v, WindSpeed_Winsorized = winsorize (WindSpeed df),
               HoursOfRain = has_rain * 3,
               HoursOfSnow = has_snow * 3,
               HoursOfRain_rolling = has_rain * 3,
               HoursOfSnow_rolling = has_snow * 3\<rparr>))"

definition add_extreme_event_features :: "pyfloat list \<Rightarrow> extreme_features" where
  "add_extreme_event_features history_pm25 =
     (if 0 < length history_pm25 then
        \<lparr>Extreme_PM25 = is_extreme_pm25 (history_pm25 ! (length history_pm25 - 1)),
         Extreme_Event_VMD_shift1 =
           (if 1 < length history_pm25
            then is_extreme_pm25 (history_pm25 ! (length history_pm25 - 2))
            else ''No'')\<rparr>
      else \<lparr>Extreme_PM25 = ''No'', Extreme_Event_VMD_shift1 = ''No''\<rparr>)"

text \<open>The air-quality frame: rows of time and \<^verbatim>\<open>pm2.5\<close>; \<^verbatim>\<open>sort_values("time")\<close>.\<close>

definition sort_values_time :: "(timestamp \<times> pyfloat) list \<Rightarrow> (timestamp \<times> pyfloat) list" where
  "sort_values_time aq_df = sort_key (\<lambda>r. ts_value (fst r)) aq_df"

definition prepare_features ::
  "weather_row \<Rightarrow> (timestamp \<times> pyfloat) list \<Rightarrow> weather_row list option \<Rightarrow> feature_row" where
  "prepare_features wx_row aq_df historical_weather_df =
     (let history_pm25 = map snd (tail HISTORY_HOURS (sort_values_time aq_df))
      in \<lparr>base = wx_row,
          time_cols = add_time_features wx_row,
          weather_cols = add_weather_features wx_row historical_weather_df,
          lag_cols = create_lag_features history_pm25,
          rolling_cols = create_rolling_features history_pm25,
          extreme_cols = add_extreme_event_features history_pm25,
          datetime = Some (time wx_row)\<rparr>)"

section \<open>The recursive forecast\<close>

text \<open>
  The model is opaque: \<open>predict df\<close> is what \<^verbatim>\<open>model.predict(df)[0]\<close> does on a feature
  row, an exception (its message) or a Python object. \<^verbatim>\<open>float(...)\<close> accepts every
  float, NaN and the infinities included, and raises on an object that is not a number.
\<close>

datatype pyobj = PyFloat pyfloat | PyNonNumeric string

definition py_float :: "pyobj \<Rightarrow> string + pyfloat" where
  "py_float v = (case v of PyFloat x \<Rightarrow> Inr x | PyNonNumeric msg \<Rightarrow> Inl msg)"

definition model_call :: "(feature_row \<Rightarrow> string + pyobj) \<Rightarrow> feature_row \<Rightarrow> string + pyfloat" where
  "model_call predict df = (case predict df of Inl e \<Rightarrow> Inl e | Inr v \<Rightarrow> py_float v)"

text \<open>
  How a run ends without a frame: \<^verbatim>\<open>st.error(msg)\<close> followed by \<^verbatim>\<open>st.stop()\<close>, which
  ends the script, or an IndexError of \<^verbatim>\<open>wx_df.iloc\<close>.
\<close>

datatype error = Stopped string | IndexError

definition digit_char :: "nat \<Rightarrow> char" where
  "digit_char d = ''0123456789'' ! d"

function str_nat :: "nat \<Rightarrow> string" where
  "str_nat n = (if n < 10 then [digit_char n] else str_nat (n div 10) @ [digit_char (n mod 10)])"
  by pat_completeness auto
termination
  by (relation "measure id") auto

declare str_nat.simps [simp del]

text \<open>
  One pass of the loop body at index \<open>idx\<close>, on the history and the rows collected so
  far. In the first branch \<^verbatim>\<open>aq_df\<close> is the sorted frame.
\<close>

definition loop_body ::
  "(feature_row \<Rightarrow> string + pyobj) \<Rightarrow> weather_row list \<Rightarrow> (timestamp \<times> pyfloat) list \<Rightarrow>
   weather_row list option \<Rightarrow> nat \<Rightarrow> pyfloat list \<times> forecast_row list \<Rightarrow>
   error + (pyfloat list \<times> forecast_row list)" where
  "loop_body predict wx_df aq_df historical_weather_df idx st =
     (case st of (history_pm25, rows) \<Rightarrow>
        (case iloc wx_df idx of
           None \<Rightarrow> Inl IndexError
         | Some wx_row \<Rightarrow>
             if idx = 0 then
               (let pred_df = prepare_features wx_row aq_df historical_weather_df in
                case model_call predict pred_df of
                  Inl e \<Rightarrow> Inl (Stopped (''Prediction error: '' @ e))
                | Inr yhat \<Rightarrow>
                    Inr (history_pm25 @ [yhat],
                         rows @ [\<lparr>features = pred_df, PM25_pred = yhat\<rparr>]))
             else
               (let new_row_df =
                      \<lparr>base = wx_row,
                       time_cols = add_time_features wx_row,
                       weather_cols = add_weather_features wx_row None,
                       lag_cols = create_lag_features history_pm25,
                       rolling_cols = create_rolling_features history_pm25,
                       extreme_cols = add_extreme_event_features history_pm25,
                       datetime = None\<rparr> in
                case model_call predict new_row_df of
                  Inl e \<Rightarrow> Inl (Stopped (''Prediction error at step '' @ str_nat idx @ '': '' @ e))
                | Inr yhat \<Rightarrow>
                    Inr (history_pm25 @ [yhat],
                         rows @ [\<lparr>features = new_row_df, PM25_pred = yhat\<rparr>]))))"

text \<open>The \<^verbatim>\<open>for\<close> loop: the first pass that fails ends the run.\<close>

fun run_steps :: "(nat \<Rightarrow> 's \<Rightarrow> error + 's) \<Rightarrow> nat list \<Rightarrow> 's \<Rightarrow> error + 's" where
  "run_steps body [] st = Inr st"
| "run_steps body (idx # idxs) st =
     (case body idx st of Inl e \<Rightarrow> Inl e | Inr st' \<Rightarrow> run_steps body idxs st')"

definition build_future_dataframe ::
  "(feature_row \<Rightarrow> string + pyobj) \<Rightarrow> weather_row list \<Rightarrow> (timestamp \<times> pyfloat) list \<Rightarrow>
   weather_row list option \<Rightarrow> error + forecast_row list" where
  "build_future_dataframe predict wx_df aq_df historical_weather_df =
     (let aq_sorted = sort_values_time aq_df;
          history_pm25 = map snd (tail HISTORY_HOURS aq_sorted)
      in case run_steps (loop_body predict wx_df aq_sorted historical_weather_df)
                [0..<FORECAST_HOURS] (history_pm25, []) of
           Inl e \<Rightarrow> Inl e
         | Inr (history, rows) \<Rightarrow> Inr rows)"


text \<open>
  The frame a pass hands to the model (\<^verbatim>\<open>pred_df\<close> in the first branch, \<^verbatim>\<open>new_row_df\<close>
  in the second) and the text it shows when the call fails, named for the statements
  below; \<open>loop_body_step_frame\<close> relates them to \<open>loop_body\<close>.
\<close>
definition step_frame ::
  "weather_row \<Rightarrow> (timestamp \<times> pyfloat) list \<Rightarrow> weather_row list option \<Rightarrow> nat \<Rightarrow>
   pyfloat list \<Rightarrow> feature_row" where
  "step_frame wx_row aq_df historical_weather_df idx history_pm25 =
     (if idx = 0 then prepare_features wx_row aq_df historical_weather_df
      else \<lparr>base = wx_row,
            time_cols = add_time_features wx_row,
            weather_cols = add_weather_features wx_row None,
            lag_cols = create_lag_features history_pm25,
            rolling_cols = create_rolling_features history_pm25,
            extreme_cols = add_extreme_event_features history_pm25,
            datetime = None\<rparr>)"

definition error_text :: "nat \<Rightarrow> string \<Rightarrow> string" where
  "error_text idx e =
     (if idx = 0 then ''Prediction error: '' @ e
      else ''Prediction error at step '' @ str_nat idx @ '': '' @ e)"

section \<open>AQI categories\<close>


text \<open>\<^verbatim>\<open>pm25_to_aqi_category(pm25)\<close>: the chain of \<^verbatim>\<open><=\<close> tests, in the source's order.\<close>

definition pm25_to_aqi_category :: "pyfloat \<Rightarrow> string \<times> string" where
  "pm25_to_aqi_category pm25 =
     (if fl_le pm25 (Fin 12) then (''Good'', ''#00e400'')
      else if fl_le pm25 (Fin 35.4) then (''Moderate'', ''#ffff00'')
      else if fl_le pm25 (Fin 55.4) then (''Unhealthy for Sensitive Groups'', ''#ff7e00'')
      else if fl_le pm25 (Fin 150.4) then (''Unhealthy'', ''#ff0000'')
      else if fl_le pm25 (Fin 250.4) then (''Very Unhealthy'', ''#8f3f97'')
      else (''Hazardous'', ''#7e0023''))"


section \<open>The forecast summary\<close>

text \<open>
  The forecast frame: the rows of \<^verbatim>\<open>pd.DataFrame(rows)\<close> and the two columns that
  \<^verbatim>\<open>generate_forecast_summary\<close> assigns, absent (\<open>None\<close>) until then. Frames are objects
  passed by reference: the store maps the address of a frame to its contents.
\<close>

record dataframe =
  df_rows :: "forecast_row list"
  aqi_category :: "string list option"
  aqi_color :: "string list option"

definition DataFrame :: "forecast_row list \<Rightarrow> dataframe" where
  "DataFrame rows = \<lparr>df_rows = rows, aqi_category = None, aqi_color = None\<rparr>"

type_synonym store = "nat \<Rightarrow> dataframe"

text \<open>
  \<^verbatim>\<open>generate_forecast_summary(df_future)\<close> on the frame at address \<open>a\<close>. After the column
  assignment the function only reads the frame, the wall clock and pandas' date
  formatting to build its text: that part is the parameter \<open>narrative\<close>, applied to the
  frame as assigned. The result is the returned text (or the exception raised while
  building it) and the store afterwards.
\<close>

definition generate_forecast_summary ::
  "(dataframe \<Rightarrow> string + string) \<Rightarrow> store \<Rightarrow> nat \<Rightarrow> (string + string) \<times> store" where
  "generate_forecast_summary narrative s a =
     (if df_rows (s a) = [] then (Inr ''No forecast data available.'', s)
      else
        (let cats = map (\<lambda>r. pm25_to_aqi_category (PM25_pred r)) (df_rows (s a));
             s' = s(a := (s a)\<lparr>aqi_category := Some (map fst cats),
                                aqi_color := Some (map snd cats)\<rparr>)
         in (narrative (s' a), s')))"

section \<open>Sample inputs\<close>

text \<open>Seventy-two hourly weather rows from 2024-01-01 00:00 (a Monday), dry and calm but
  for rain in the second hour; models that return 10, that return NaN, and that
  raise at hour 13 of the second day.\<close>

definition sample_time :: "nat \<Rightarrow> timestamp" where
  "sample_time i =
     \<lparr>ts_value = int i, ts_year = 2024, ts_month = 1, ts_day = 1 + int (i div 24),
      ts_hour = int (i mod 24), ts_dayofweek = int (i div 24),
      ts_dayofyear = 1 + int (i div 24)\<rparr>"

definition sample_row :: "nat \<Rightarrow> weather_row" where
  "sample_row i =
     \<lparr>time = sample_time i, Temp = Fin 1, DewP = Fin (- 5), Press = Fin 1020,
      WindSpeed = Fin 10, WindDir = Fin 90, Humidity = Fin 40,
      precipitation = (if i = 1 then Fin 2 else Fin 0), snowfall = Fin 0\<rparr>"

definition sample_wx :: "weather_row list" where
  "sample_wx = map sample_row [0..<72]"

definition sample_hist :: "weather_row list" where
  "sample_hist = [sample_row 1, sample_row 1, sample_row 0]"

definition const_model :: "feature_row \<Rightarrow> string + pyobj" where
  "const_model df = Inr (PyFloat (Fin 10))"

definition nan_model :: "feature_row \<Rightarrow> string + pyobj" where
  "nan_model df = Inr (PyFloat NaN)"

definition failing_model :: "feature_row \<Rightarrow> string + pyobj" where
  "failing_model df =
     (if ts_value (time (base df)) = 37 then Inl ''boom'' else Inr (PyFloat (Fin 10)))"

definition sample_narrative :: "dataframe \<Rightarrow> string + string" where
  "sample_narrative df = Inr ''Air quality will be worst on Today''"

definition sample_store :: "nat \<Rightarrow> dataframe" where
  "sample_store a =
     DataFrame [\<lparr>features = prepare_features (sample_row 0) [] None, PM25_pred = Fin 40\<rparr>]"

section \<open>The loop, step by step\<close>

lemma run_steps_append:
  "run_steps body (xs @ ys) st =
     (case run_steps body xs st of Inl e \<Rightarrow> Inl e | Inr st' \<Rightarrow> run_steps body ys st')"
  by (induction xs arbitrary: st) (auto split: sum.splits)

lemma run_steps_snoc:
  "run_steps body (xs @ [idx]) st =
     (case run_steps body xs st of Inl e \<Rightarrow> Inl e | Inr st' \<Rightarrow> body idx st')"
  by (simp add: run_steps_append split: sum.splits)

lemma loop_body_step_frame:
  "loop_body predict wx_df aq_df hw idx (history, rows) =
     (if idx < length wx_df then
        (case model_call predict (step_frame (wx_df ! idx) aq_df hw idx history) of
           Inl e \<Rightarrow> Inl (Stopped (error_text idx e))
         | Inr yhat \<Rightarrow>
             Inr (history @ [yhat],
                  rows @ [\<lparr>features = step_frame (wx_df ! idx) aq_df hw idx history,
                           PM25_pred = yhat\<rparr>]))
      else Inl IndexError)"
  by (simp add: loop_body_def step_frame_def error_text_def iloc_def Let_def split: sum.splits)

lemma step_frame_base: "base (step_frame r aq_df hw idx history) = r"
  by (simp add: step_frame_def prepare_features_def Let_def)

lemma step_frame_weather_cols:
  "weather_cols (step_frame r aq_df hw idx history) =
     add_weather_features r (if idx = 0 then hw else None)"
  by (simp add: step_frame_def prepare_features_def Let_def)

lemma run_loop_rows:
  "run_steps (loop_body predict wx_df aq_df hw) [0..<n] (h0, []) = Inr (history, rows) \<Longrightarrow>
   length rows = n \<and> n \<le> length wx_df \<and> history = h0 @ map PM25_pred rows \<and>
   (\<forall>i<n. features (rows ! i) =
             step_frame (wx_df ! i) aq_df hw i (h0 @ map PM25_pred (take i rows)) \<and>
           model_call predict (features (rows ! i)) = Inr (PM25_pred (rows ! i)))"
proof (induction n arbitrary: history rows)
  case 0
  then show ?case by simp
next
  case (Suc n)
  from Suc.prems obtain h1 rows1 where
    prev: "run_steps (loop_body predict wx_df aq_df hw) [0..<n] (h0, []) = Inr (h1, rows1)"
    and last: "loop_body predict wx_df aq_df hw n (h1, rows1) = Inr (history, rows)"
    by (auto simp: run_steps_snoc split: sum.splits)
  from Suc.IH [OF prev] have len: "length rows1 = n" and le: "n \<le> length wx_df"
    and h1: "h1 = h0 @ map PM25_pred rows1"
    and old: "\<forall>i<n. features (rows1 ! i) =
             step_frame (wx_df ! i) aq_df hw i (h0 @ map PM25_pred (take i rows1)) \<and>
           model_call predict (features (rows1 ! i)) = Inr (PM25_pred (rows1 ! i))"
    by blast+
  from last obtain yhat where lt: "n < length wx_df"
    and call: "model_call predict (step_frame (wx_df ! n) aq_df hw n h1) = Inr yhat"
    and hist: "history = h1 @ [yhat]"
    and rows: "rows = rows1 @ [\<lparr>features = step_frame (wx_df ! n) aq_df hw n h1,
                               PM25_pred = yhat\<rparr>]"
    by (auto simp: loop_body_step_frame split: if_splits sum.splits)
  have all: "\<forall>i<Suc n. features (rows ! i) =
             step_frame (wx_df ! i) aq_df hw i (h0 @ map PM25_pred (take i rows)) \<and>
           model_call predict (features (rows ! i)) = Inr (PM25_pred (rows ! i))"
  proof (intro allI impI)
    fix i assume "i < Suc n"
    show "features (rows ! i) =
             step_frame (wx_df ! i) aq_df hw i (h0 @ map PM25_pred (take i rows)) \<and>
           model_call predict (features (rows ! i)) = Inr (PM25_pred (rows ! i))"
    proof (cases "i < n")
      case True
      with old have "features (rows1 ! i) =
             step_frame (wx_df ! i) aq_df hw i (h0 @ map PM25_pred (take i rows1)) \<and>
           model_call predict (features (rows1 ! i)) = Inr (PM25_pred (rows1 ! i))"
        by blast
      with len rows True show ?thesis by (auto simp: nth_append)
    next
      case False
      with \<open>i < Suc n\<close> have "i = n" by simp
      with len rows call h1 show ?thesis by (simp add: nth_append)
    qed
  qed
  show ?case
  proof (intro conjI)
    show "length rows = Suc n" using len rows by simp
    show "Suc n \<le> length wx_df" using lt by simp
    show "history = h0 @ map PM25_pred rows" using h1 hist rows by simp
    show "\<forall>i<Suc n. features (rows ! i) =
             step_frame (wx_df ! i) aq_df hw i (h0 @ map PM25_pred (take i rows)) \<and>
           model_call predict (features (rows ! i)) = Inr (PM25_pred (rows ! i))"
      by (rule all)
  qed
qed

lemma run_loop_progress:
  assumes "n \<le> length wx_df"
    and "\<And>fr. base fr \<in> set (take n wx_df) \<Longrightarrow> \<exists>v. model_call predict fr = Inr v"
  shows "\<exists>st. run_steps (loop_body predict wx_df aq_df hw) [0..<n] s0 = Inr st"
  using assms
proof (induction n)
  case 0
  then show ?case by simp
next
  case (Suc n)
  have "\<And>fr. base fr \<in> set (take n wx_df) \<Longrightarrow> \<exists>v. model_call predict fr = Inr v"
    using Suc.prems(2) by (meson in_set_takeD set_take_subset_set_take le_SucI subsetD le_refl)
  with Suc obtain h rows where
    prev: "run_steps (loop_body predict wx_df aq_df hw) [0..<n] s0 = Inr (h, rows)"
    by (metis Suc_leD surj_pair)
  have "wx_df ! n \<in> set (take (Suc n) wx_df)"
    using Suc.prems(1) by (metis Suc_le_lessD lessI nth_take nth_mem length_take min.absorb2)
  then obtain v where "model_call predict (step_frame (wx_df ! n) aq_df hw n h) = Inr v"
    using Suc.prems(2) [of "step_frame (wx_df ! n) aq_df hw n h"] by (auto simp: step_frame_base)
  with prev Suc.prems(1) show ?case
    by (simp add: run_steps_snoc loop_body_step_frame)
qed

lemma run_loop_progress_trace:
  assumes "n \<le> length wx_df"
    and "\<And>idx history rows. idx < n \<Longrightarrow>
           run_steps (loop_body predict wx_df aq_df hw) [0..<idx] s0 = Inr (history, rows) \<Longrightarrow>
           \<exists>v. model_call predict (step_frame (wx_df ! idx) aq_df hw idx history) = Inr v"
  shows "\<exists>st. run_steps (loop_body predict wx_df aq_df hw) [0..<n] s0 = Inr st"
  using assms
proof (induction n)
  case 0
  then show ?case by simp
next
  case (Suc n)
  have "n \<le> length wx_df" using Suc.prems(1) by simp
  moreover have "\<And>idx history rows. idx < n \<Longrightarrow>
           run_steps (loop_body predict wx_df aq_df hw) [0..<idx] s0 = Inr (history, rows) \<Longrightarrow>
           \<exists>v. model_call predict (step_frame (wx_df ! idx) aq_df hw idx history) = Inr v"
    using Suc.prems(2) by (simp add: less_Suc_eq)
  ultimately obtain st where "run_steps (loop_body predict wx_df aq_df hw) [0..<n] s0 = Inr st"
    using Suc.IH by blast
  then obtain h rows where
    prev: "run_steps (loop_body predict wx_df aq_df hw) [0..<n] s0 = Inr (h, rows)"
    by (cases st) simp
  from Suc.prems(2) [OF _ prev]
  obtain v where "model_call predict (step_frame (wx_df ! n) aq_df hw n h) = Inr v"
    by auto
  with prev Suc.prems(1) show ?case
    by (simp add: run_steps_snoc loop_body_step_frame)
qed

lemma run_steps_fail:
  assumes "run_steps body [0..<i] s0 = Inr s" and "body i s = Inl e" and "i < n"
  shows "run_steps body [0..<n] s0 = Inl e"
proof -
  have "[0..<n] = [0..<i] @ [i..<n]"
    using assms(3) upt_add_eq_append [of 0 i "n - i"] by simp
  also have "[i..<n] = i # [Suc i..<n]"
    using assms(3) by (simp add: upt_conv_Cons)
  finally have "[0..<n] = [0..<i] @ i # [Suc i..<n]" .
  then show ?thesis using assms(1,2) by (simp add: run_steps_append)
qed

lemma sample_wx_length: "length sample_wx = 72"
  by (simp add: sample_wx_def)

lemma sample_wx_nth: "i < 72 \<Longrightarrow> sample_wx ! i = sample_row i"
  by (simp add: sample_wx_def)

lemma sample_wx_take: "n \<le> 72 \<Longrightarrow> take n sample_wx = map sample_row [0..<n]"
  by (simp add: sample_wx_def take_map min_def)

lemma sample_wx_times: "map time sample_wx = map sample_time [0..<72]"
  by (simp add: sample_wx_def sample_row_def)

lemma model_call_float: "predict df = Inr (PyFloat v) \<Longrightarrow> model_call predict df = Inr v"
  by (simp add: model_call_def py_float_def)

lemma model_call_fails:
  "predict df = Inl e \<or> predict df = Inr (PyNonNumeric e) \<Longrightarrow> model_call predict df = Inl e"
  by (auto simp: model_call_def py_float_def)

lemma build_future_dataframe_Inr:
  "build_future_dataframe predict wx_df aq_df hw = Inr rows \<longleftrightarrow>
     (\<exists>history. run_steps (loop_body predict wx_df (sort_values_time aq_df) hw)
        [0..<FORECAST_HOURS] (map snd (tail HISTORY_HOURS (sort_values_time aq_df)), [])
        = Inr (history, rows))"
  by (auto simp: build_future_dataframe_def Let_def split: sum.splits)

lemma build_future_dataframe_returns:
  assumes "FORECAST_HOURS \<le> length wx_df"
    and "\<And>fr. base fr \<in> set (take FORECAST_HOURS wx_df) \<Longrightarrow> \<exists>v. model_call predict fr = Inr v"
  shows "\<exists>rows. build_future_dataframe predict wx_df aq_df hw = Inr rows"
proof -
  from run_loop_progress [OF assms]
  obtain st where "run_steps (loop_body predict wx_df (sort_values_time aq_df) hw)
        [0..<FORECAST_HOURS] (map snd (tail HISTORY_HOURS (sort_values_time aq_df)), []) = Inr st"
    by blast
  then show ?thesis by (cases st) (auto simp: build_future_dataframe_Inr)
qed

lemma build_future_dataframe_rows:
  assumes "build_future_dataframe predict wx_df aq_df hw = Inr rows"
  shows "length rows = FORECAST_HOURS" and "FORECAST_HOURS \<le> length wx_df"
    and "i < FORECAST_HOURS \<Longrightarrow> base (features (rows ! i)) = wx_df ! i"
    and "i < FORECAST_HOURS \<Longrightarrow>
           weather_cols (features (rows ! i)) =
             add_weather_features (wx_df ! i) (if i = 0 then hw else None)"
    and "i < FORECAST_HOURS \<Longrightarrow> model_call predict (features (rows ! i)) = Inr (PM25_pred (rows ! i))"
proof -
  from assms obtain history where
    "run_steps (loop_body predict wx_df (sort_values_time aq_df) hw)
        [0..<FORECAST_HOURS] (map snd (tail HISTORY_HOURS (sort_values_time aq_df)), [])
        = Inr (history, rows)"
    by (auto simp: build_future_dataframe_Inr)
  note inv = run_loop_rows [OF this]
  show "length rows = FORECAST_HOURS" and "FORECAST_HOURS \<le> length wx_df"
    using inv by blast+
  show "i < FORECAST_HOURS \<Longrightarrow> base (features (rows ! i)) = wx_df ! i"
    using inv by (simp add: step_frame_base)
  show "i < FORECAST_HOURS \<Longrightarrow>
           weather_cols (features (rows ! i)) =
             add_weather_features (wx_df ! i) (if i = 0 then hw else None)"
    using inv by (simp add: step_frame_weather_cols)
  show "i < FORECAST_HOURS \<Longrightarrow> model_call predict (features (rows ! i)) = Inr (PM25_pred (rows ! i))"
    using inv by blast
qed

lemma const_model_call: "\<exists>v. model_call const_model fr = Inr v"
  by (simp add: model_call_def const_model_def py_float_def)

lemma str_nat_37: "str_nat 37 = ''37''"
  by (simp add: str_nat.simps digit_char_def)

lemma failing_model_call:
  "base fr \<in> set (take 37 sample_wx) \<Longrightarrow> \<exists>v. model_call failing_model fr = Inr v"
  by (auto simp: sample_wx_take model_call_def failing_model_def py_float_def sample_row_def
      sample_time_def)

lemma nan_model_call: "model_call nan_model fr = Inr NaN"
  by (simp add: model_call_def nan_model_def py_float_def)

lemma map_of_create_lag_features:
  "k \<in> set lag_periods \<Longrightarrow> map_of (create_lag_features h) k = Some (lag_value h k)"
  by (auto simp: create_lag_features_def lag_periods_def)

section \<open>Properties\<close>

text \<open>
  C1 (as amended). Suppose the passes before step \<open>idx\<close> have completed and \<open>df\<close> is the
  frame of step \<open>idx\<close>. If the model raises on \<open>df\<close>, or returns an object that
  \<^verbatim>\<open>float\<close> rejects, the run stops: no rows are returned and the text shown ends with
  the cause and, from step 1 on, names the step. A float returned by the model is
  accepted whatever its value, NaN and the infinities included: the pass completes and
  the value joins the history and the rows.
\<close>

theorem model_failure_stops_run:
  assumes idx: "idx < FORECAST_HOURS" "idx < length wx_df"
    and before: "run_steps (loop_body predict wx_df (sort_values_time aq_df) hw) [0..<idx]
                   (map snd (tail HISTORY_HOURS (sort_values_time aq_df)), []) = Inr (history, rows)"
    and df: "df = step_frame (wx_df ! idx) (sort_values_time aq_df) hw idx history"
  shows "(predict df = Inl e \<or> predict df = Inr (PyNonNumeric e) \<longrightarrow>
            (\<exists>msg. build_future_dataframe predict wx_df aq_df hw = Inl (Stopped msg) \<and>
               (\<exists>pre. msg = pre @ e) \<and>
               (1 \<le> idx \<longrightarrow> msg = ''Prediction error at step '' @ str_nat idx @ '': '' @ e))) \<and>
         (predict df = Inr (PyFloat v) \<longrightarrow>
            run_steps (loop_body predict wx_df (sort_values_time aq_df) hw) [0..<Suc idx]
              (map snd (tail HISTORY_HOURS (sort_values_time aq_df)), [])
            = Inr (history @ [v], rows @ [\<lparr>features = df, PM25_pred = v\<rparr>]))"
proof (intro conjI impI)
  assume "predict df = Inl e \<or> predict df = Inr (PyNonNumeric e)"
  then have "model_call predict df = Inl e" by (rule model_call_fails)
  then have "loop_body predict wx_df (sort_values_time aq_df) hw idx (history, rows)
               = Inl (Stopped (error_text idx e))"
    using idx(2) df by (simp add: loop_body_step_frame)
  from run_steps_fail [OF before this idx(1)]
  have "build_future_dataframe predict wx_df aq_df hw = Inl (Stopped (error_text idx e))"
    by (simp add: build_future_dataframe_def Let_def)
  moreover have "\<exists>pre. error_text idx e = pre @ e"
    by (auto simp: error_text_def intro: exI [of _ "''Prediction error: ''"]
        exI [of _ "''Prediction error at step '' @ str_nat idx @ '': ''"])
  moreover have "1 \<le> idx \<longrightarrow>
      error_text idx e = ''Prediction error at step '' @ str_nat idx @ '': '' @ e"
    by (simp add: error_text_def)
  ultimately show "\<exists>msg. build_future_dataframe predict wx_df aq_df hw = Inl (Stopped msg) \<and>
               (\<exists>pre. msg = pre @ e) \<and>
               (1 \<le> idx \<longrightarrow> msg = ''Prediction error at step '' @ str_nat idx @ '': '' @ e)"
    by blast
next
  assume "predict df = Inr (PyFloat v)"
  then have "model_call predict df = Inr v" by (rule model_call_float)
  then have "loop_body predict wx_df (sort_values_time aq_df) hw idx (history, rows)
               = Inr (history @ [v], rows @ [\<lparr>features = df, PM25_pred = v\<rparr>])"
    using idx(2) df by (simp add: loop_body_step_frame)
  with before show "run_steps (loop_body predict wx_df (sort_values_time aq_df) hw) [0..<Suc idx]
              (map snd (tail HISTORY_HOURS (sort_values_time aq_df)), [])
            = Inr (history @ [v], rows @ [\<lparr>features = df, PM25_pred = v\<rparr>])"
    by (simp add: run_steps_snoc)
qed

theorem model_failure_stops_run_witness:
  "build_future_dataframe failing_model sample_wx [] None
     = Inl (Stopped ''Prediction error at step 37: boom'') \<and>
   run_steps (loop_body nan_model sample_wx (sort_values_time []) None) [0..<Suc 0]
       (map snd (tail HISTORY_HOURS (sort_values_time [])), [])
     = Inr ([] @ [NaN],
            [] @ [\<lparr>features = step_frame (sample_wx ! 0) (sort_values_time []) None 0 [],
                    PM25_pred = NaN\<rparr>])"
proof
  have len: "37 \<le> length sample_wx" by (simp add: sample_wx_length)
  from run_loop_progress [OF len failing_model_call]
  obtain history rows where
    before: "run_steps (loop_body failing_model sample_wx (sort_values_time []) None) [0..<37]
               (map snd (tail HISTORY_HOURS (sort_values_time [])), []) = Inr (history, rows)"
    by (metis surj_pair)
  have fails: "failing_model (step_frame (sample_wx ! 37) (sort_values_time []) None 37 history)
                 = Inl ''boom''"
    by (simp add: failing_model_def step_frame_base sample_wx_nth sample_row_def sample_time_def)
  have "\<exists>msg. build_future_dataframe failing_model sample_wx [] None = Inl (Stopped msg) \<and>
          (\<exists>pre. msg = pre @ ''boom'') \<and>
          (1 \<le> (37::nat) \<longrightarrow> msg = ''Prediction error at step '' @ str_nat 37 @ '': '' @ ''boom'')"
    by (rule model_failure_stops_run [where idx = 37 and e = "''boom''" and v = NaN,
          OF _ _ before refl, THEN conjunct1, rule_format])
       (simp_all add: FORECAST_HOURS_def sample_wx_length fails)
  then show "build_future_dataframe failing_model sample_wx [] None
     = Inl (Stopped ''Prediction error at step 37: boom'')"
    by (auto simp: str_nat_37)
next
  have start: "run_steps (loop_body nan_model sample_wx (sort_values_time []) None) [0..<0]
               (map snd (tail HISTORY_HOURS (sort_values_time [])), []) = Inr ([], [])"
    by (simp add: sort_values_time_def tail_def)
  show "run_steps (loop_body nan_model sample_wx (sort_values_time []) None) [0..<Suc 0]
       (map snd (tail HISTORY_HOURS (sort_values_time [])), [])
     = Inr ([] @ [NaN],
            [] @ [\<lparr>features = step_frame (sample_wx ! 0) (sort_values_time []) None 0 [],
                    PM25_pred = NaN\<rparr>])"
    by (rule model_failure_stops_run [where idx = 0 and v = NaN and e = "''''",
          OF _ _ start refl, THEN conjunct2, rule_format])
       (simp_all add: FORECAST_HOURS_def sample_wx_length nan_model_def)
qed

text \<open>
  The claim as stated fails: a model that answers NaN at every step does not stop the
  run, which returns 72 rows, the first with the prediction NaN.
\<close>

theorem nan_prediction_does_not_stop_run:
  "\<not> isl (build_future_dataframe nan_model sample_wx [] None) \<and>
   length (projr (build_future_dataframe nan_model sample_wx [] None)) = 72 \<and>
   nan_model (features (projr (build_future_dataframe nan_model sample_wx [] None) ! 0))
     = Inr (PyFloat NaN) \<and>
   PM25_pred (projr (build_future_dataframe nan_model sample_wx [] None) ! 0) = NaN"
proof -
  have "FORECAST_HOURS \<le> length sample_wx"
    by (simp add: FORECAST_HOURS_def sample_wx_length)
  from build_future_dataframe_returns [OF this, of nan_model]
  obtain rows where run: "build_future_dataframe nan_model sample_wx [] None = Inr rows"
    using nan_model_call by blast
  have "length rows = 72"
    using build_future_dataframe_rows(1) [OF run] by (simp add: FORECAST_HOURS_def)
  moreover have "PM25_pred (rows ! 0) = NaN"
    using build_future_dataframe_rows(5) [OF run, of 0]
    by (simp add: FORECAST_HOURS_def nan_model_call)
  ultimately show ?thesis by (simp add: run nan_model_def)
qed

text \<open>
  C2. For a weather frame of at least 72 rows with strictly increasing timestamps and a
  model that returns a float at every step of the run (on the frame of each step
  \<open>idx < 72\<close> that the run reaches, the passes before it having completed),
  \<open>build_future_dataframe\<close> returns exactly 72 rows whose \<^verbatim>\<open>time\<close> values are, row for
  row, the first 72 timestamps of the weather frame, hence strictly increasing. Nothing
  is asked of the model on frames the run does not build.
\<close>

theorem forecast_has_72_steps:
  assumes len: "FORECAST_HOURS \<le> length wx_df"
    and ok: "\<forall>idx history rows.
               idx < FORECAST_HOURS \<and>
               run_steps (loop_body predict wx_df (sort_values_time aq_df) hw) [0..<idx]
                 (map snd (tail HISTORY_HOURS (sort_values_time aq_df)), []) = Inr (history, rows)
               \<longrightarrow> (\<exists>v. predict (step_frame (wx_df ! idx) (sort_values_time aq_df) hw idx history)
                          = Inr (PyFloat v))"
    and ord: "sorted_wrt (\<lambda>s t. ts_value s < ts_value t) (map time wx_df)"
  shows "\<exists>rows. build_future_dataframe predict wx_df aq_df hw = Inr rows \<and>
           length rows = 72 \<and>
           map (\<lambda>r. time (base (features r))) rows = take 72 (map time wx_df) \<and>
           sorted_wrt (\<lambda>s t. ts_value s < ts_value t) (map (\<lambda>r. time (base (features r))) rows)"
proof -
  have "\<exists>st. run_steps (loop_body predict wx_df (sort_values_time aq_df) hw)
        [0..<FORECAST_HOURS] (map snd (tail HISTORY_HOURS (sort_values_time aq_df)), []) = Inr st"
  proof (rule run_loop_progress_trace [OF len])
    fix idx history rows
    assume "idx < FORECAST_HOURS"
      and "run_steps (loop_body predict wx_df (sort_values_time aq_df) hw) [0..<idx]
             (map snd (tail HISTORY_HOURS (sort_values_time aq_df)), []) = Inr (history, rows)"
    with ok obtain v where
      "predict (step_frame (wx_df ! idx) (sort_values_time aq_df) hw idx history)
         = Inr (PyFloat v)"
      by blast
    then show "\<exists>v. model_call predict
                 (step_frame (wx_df ! idx) (sort_values_time aq_df) hw idx history) = Inr v"
      using model_call_float by blast
  qed
  then obtain st where "run_steps (loop_body predict wx_df (sort_values_time aq_df) hw)
        [0..<FORECAST_HOURS] (map snd (tail HISTORY_HOURS (sort_values_time aq_df)), []) = Inr st"
    by blast
  then obtain rows where run: "build_future_dataframe predict wx_df aq_df hw = Inr rows"
    by (cases st) (auto simp: build_future_dataframe_Inr)
  note facts = build_future_dataframe_rows [OF run]
  have n: "length rows = 72" using facts(1) by (simp add: FORECAST_HOURS_def)
  have times: "map (\<lambda>r. time (base (features r))) rows = take 72 (map time wx_df)"
  proof (rule nth_equalityI)
    show "length (map (\<lambda>r. time (base (features r))) rows) = length (take 72 (map time wx_df))"
      using n len by (simp add: FORECAST_HOURS_def)
  next
    fix i assume "i < length (map (\<lambda>r. time (base (features r))) rows)"
    then have i: "i < 72" using n by simp
    then have "base (features (rows ! i)) = wx_df ! i"
      using facts(3) by (simp add: FORECAST_HOURS_def)
    then show "map (\<lambda>r. time (base (features r))) rows ! i = take 72 (map time wx_df) ! i"
      using i n len by (simp add: FORECAST_HOURS_def)
  qed
  have "sorted_wrt (\<lambda>s t. ts_value s < ts_value t) (take 72 (map time wx_df))"
    using ord by (rule sorted_wrt_take)
  with run n times show ?thesis by simp
qed

theorem forecast_has_72_steps_witness:
  "FORECAST_HOURS \<le> length sample_wx \<and>
   sorted_wrt (\<lambda>s t. ts_value s < ts_value t) (map time sample_wx) \<and>
   (\<exists>rows. build_future_dataframe const_model sample_wx [] None = Inr rows \<and>
      length rows = 72 \<and>
      map (\<lambda>r. time (base (features r))) rows = map sample_time [0..<72])"
proof -
  have len: "FORECAST_HOURS \<le> length sample_wx"
    by (simp add: FORECAST_HOURS_def sample_wx_length)
  have ok: "\<forall>idx history rows.
               idx < FORECAST_HOURS \<and>
               run_steps (loop_body const_model sample_wx (sort_values_time []) None) [0..<idx]
                 (map snd (tail HISTORY_HOURS (sort_values_time [])), []) = Inr (history, rows)
               \<longrightarrow> (\<exists>v. const_model (step_frame (sample_wx ! idx) (sort_values_time []) None idx history)
                          = Inr (PyFloat v))"
    by (simp add: const_model_def)
  have ord: "sorted_wrt (\<lambda>s t. ts_value s < ts_value t) (map time sample_wx)"
    by (simp add: sample_wx_times sorted_wrt_map sorted_wrt_iff_nth_less sample_time_def)
  from forecast_has_72_steps [OF len ok ord] len ord
  show ?thesis by (auto simp: sample_wx_times)
qed

text \<open>
  C3. In a run that returns its rows, the precipitation-hours columns of row 0 are
  counted over the trailing window of the historical weather frame when one is given;
  for every step from 1 to 71 the weather columns are those derived from the current
  weather row with no historical frame: 3 hours if its precipitation (snowfall) is above
  0.1, otherwise 0.
\<close>

theorem precipitation_hours_window_only_at_step_0:
  assumes run: "build_future_dataframe predict wx_df aq_df hw = Inr rows"
  shows "(\<forall>w. hw = Some w \<longrightarrow>
            HoursOfRain (weather_cols (features (rows ! 0))) =
              calculate_hours_of_precipitation (map precipitation (tail 24 w)) \<and>
            HoursOfSnow (weather_cols (features (rows ! 0))) =
              calculate_hours_of_precipitation (map snowfall (tail 24 w)) \<and>
            HoursOfRain_rolling (weather_cols (features (rows ! 0))) =
              calculate_hours_of_precipitation (map precipitation (tail 24 w)) \<and>
            HoursOfSnow_rolling (weather_cols (features (rows ! 0))) =
              calculate_hours_of_precipitation (map snowfall (tail 24 w))) \<and>
         (\<forall>i. 1 \<le> i \<and> i \<le> 71 \<longrightarrow>
            weather_cols (features (rows ! i)) = add_weather_features (wx_df ! i) None \<and>
            HoursOfRain (weather_cols (features (rows ! i))) =
              (if fl_gt (precipitation (wx_df ! i)) (Fin 0.1) then 3 else 0) \<and>
            HoursOfSnow (weather_cols (features (rows ! i))) =
              (if fl_gt (snowfall (wx_df ! i)) (Fin 0.1) then 3 else 0) \<and>
            HoursOfRain_rolling (weather_cols (features (rows ! i))) =
              (if fl_gt (precipitation (wx_df ! i)) (Fin 0.1) then 3 else 0) \<and>
            HoursOfSnow_rolling (weather_cols (features (rows ! i))) =
              (if fl_gt (snowfall (wx_df ! i)) (Fin 0.1) then 3 else 0))"
proof (intro conjI allI impI)
  fix w assume hw: "hw = Some w"
  have first: "weather_cols (features (rows ! 0)) = add_weather_features (wx_df ! 0) (Some w)"
    using build_future_dataframe_rows(4) [OF run, of 0] hw by (simp add: FORECAST_HOURS_def)
  show "HoursOfRain (weather_cols (features (rows ! 0))) =
          calculate_hours_of_precipitation (map precipitation (tail 24 w))"
    by (simp add: first add_weather_features_def Let_def split: prod.splits)
  show "HoursOfSnow (weather_cols (features (rows ! 0))) =
          calculate_hours_of_precipitation (map snowfall (tail 24 w))"
    by (simp add: first add_weather_features_def Let_def split: prod.splits)
  show "HoursOfRain_rolling (weather_cols (features (rows ! 0))) =
          calculate_hours_of_precipitation (map precipitation (tail 24 w))"
    by (simp add: first add_weather_features_def Let_def split: prod.splits)
  show "HoursOfSnow_rolling (weather_cols (features (rows ! 0))) =
          calculate_hours_of_precipitation (map snowfall (tail 24 w))"
    by (simp add: first add_weather_features_def Let_def split: prod.splits)
next
  fix i :: nat assume i: "1 \<le> i \<and> i \<le> 71"
  then show later: "weather_cols (features (rows ! i)) = add_weather_features (wx_df ! i) None"
    using build_future_dataframe_rows(4) [OF run, of i] by (simp add: FORECAST_HOURS_def)
  show "HoursOfRain (weather_cols (features (rows ! i))) =
          (if fl_gt (precipitation (wx_df ! i)) (Fin 0.1) then 3 else 0)"
    by (simp add: later add_weather_features_def Let_def split: prod.splits)
  show "HoursOfSnow (weather_cols (features (rows ! i))) =
          (if fl_gt (snowfall (wx_df ! i)) (Fin 0.1) then 3 else 0)"
    by (simp add: later add_weather_features_def Let_def split: prod.splits)
  show "HoursOfRain_rolling (weather_cols (features (rows ! i))) =
          (if fl_gt (precipitation (wx_df ! i)) (Fin 0.1) then 3 else 0)"
    by (simp add: later add_weather_features_def Let_def split: prod.splits)
  show "HoursOfSnow_rolling (weather_cols (features (rows ! i))) =
          (if fl_gt (snowfall (wx_df ! i)) (Fin 0.1) then 3 else 0)"
    by (simp add: later add_weather_features_def Let_def split: prod.splits)
qed

theorem precipitation_hours_window_only_at_step_0_witness:
  "HoursOfRain (weather_cols (features
      (projr (build_future_dataframe const_model sample_wx [] (Some sample_hist)) ! 0))) = 2 \<and>
   HoursOfRain (weather_cols (features
      (projr (build_future_dataframe const_model sample_wx [] (Some sample_hist)) ! 1))) = 3 \<and>
   HoursOfRain (weather_cols (features
      (projr (build_future_dataframe const_model sample_wx [] (Some sample_hist)) ! 2))) = 0"
proof -
  have "FORECAST_HOURS \<le> length sample_wx"
    by (simp add: FORECAST_HOURS_def sample_wx_length)
  from build_future_dataframe_returns [OF this const_model_call]
  obtain rows where
    run: "build_future_dataframe const_model sample_wx [] (Some sample_hist) = Inr rows"
    by blast
  note main = precipitation_hours_window_only_at_step_0 [OF run]
  have "HoursOfRain (weather_cols (features (rows ! 0))) =
          calculate_hours_of_precipitation (map precipitation (tail 24 sample_hist))"
    by (rule main [THEN conjunct1, rule_format, THEN conjunct1]) simp
  then have v0: "HoursOfRain (weather_cols (features (rows ! 0))) = 2"
    by (simp add: sample_hist_def sample_row_def tail_def
        calculate_hours_of_precipitation_def fl_ge_def)
  have "HoursOfRain (weather_cols (features (rows ! 1))) =
          (if fl_gt (precipitation (sample_wx ! 1)) (Fin 0.1) then 3 else 0)"
    by (rule main [THEN conjunct2, rule_format, THEN conjunct2, THEN conjunct1]) simp
  then have v1: "HoursOfRain (weather_cols (features (rows ! 1))) = 3"
    by (simp add: sample_wx_nth sample_row_def fl_gt_def)
  have "HoursOfRain (weather_cols (features (rows ! 2))) =
          (if fl_gt (precipitation (sample_wx ! 2)) (Fin 0.1) then 3 else 0)"
    by (rule main [THEN conjunct2, rule_format, THEN conjunct2, THEN conjunct1]) simp
  then have v2: "HoursOfRain (weather_cols (features (rows ! 2))) = 0"
    by (simp add: sample_wx_nth sample_row_def fl_gt_def)
  from v0 v1 v2 show ?thesis
    by (simp add: run)
qed

text \<open>
  C4 (as amended). For a lag \<open>k\<close> of 1, 2, 3, 6, 12 or 24: a buffer that is not empty and
  has fewer than \<open>k\<close> entries gives its oldest entry, with no error; the empty buffer
  gives NaN; a buffer of at least \<open>k\<close> entries gives the value \<open>k\<close> steps before its end.
\<close>

theorem lag_feature_value:
  assumes "k \<in> {1, 2, 3, 6, 12, 24}"
  shows "\<exists>v. map_of (create_lag_features h) k = Some v \<and>
           (h \<noteq> [] \<and> length h < k \<longrightarrow> v = hd h) \<and>
           (h = [] \<longrightarrow> v = NaN) \<and>
           (k \<le> length h \<longrightarrow> v = rev h ! (k - 1))"
proof -
  from assms have k: "k \<in> set lag_periods" and pos: "0 < k"
    by (auto simp: lag_periods_def)
  have "h \<noteq> [] \<and> length h < k \<longrightarrow> lag_value h k = hd h"
    by (auto simp: lag_value_def hd_conv_nth)
  moreover have "h = [] \<longrightarrow> lag_value h k = NaN"
    using pos by (simp add: lag_value_def)
  moreover have "k \<le> length h \<longrightarrow> lag_value h k = rev h ! (k - 1)"
    using pos by (auto simp: lag_value_def rev_nth)
  ultimately show ?thesis
    using map_of_create_lag_features [OF k] by blast
qed

theorem lag_feature_value_witness:
  "map_of (create_lag_features [Fin 5, Fin 7]) 24 = Some (Fin 5) \<and>
   map_of (create_lag_features [Fin 5, Fin 7]) 1 = Some (Fin 7) \<and>
   map_of (create_lag_features []) 6 = Some NaN"
proof (intro conjI)
  from lag_feature_value [of 24 "[Fin 5, Fin 7]"]
  show "map_of (create_lag_features [Fin 5, Fin 7]) 24 = Some (Fin 5)" by auto
  from lag_feature_value [of 1 "[Fin 5, Fin 7]"]
  show "map_of (create_lag_features [Fin 5, Fin 7]) 1 = Some (Fin 7)" by auto
  from lag_feature_value [of 6 "[]"]
  show "map_of (create_lag_features []) 6 = Some NaN" by auto
qed

text \<open>
  The claim as stated fails on the empty buffer, which has fewer than one entry: its lag
  feature is NaN.
\<close>

theorem lag_of_empty_buffer_is_nan:
  "length ([] :: pyfloat list) < 1 \<and> map_of (create_lag_features []) 1 = Some NaN"
  by (simp add: create_lag_features_def lag_periods_def lag_value_def)

text \<open>
  C5. For a buffer that is not empty the rolling mean is \<^verbatim>\<open>np.mean\<close> of its last
  \<open>min 24 len\<close> entries, and the rolling standard deviation is \<^verbatim>\<open>np.std\<close> of them when
  there are several and exactly 0 when there is one; for the empty buffer both are NaN.
\<close>

theorem rolling_features_window:
  "(h \<noteq> [] \<longrightarrow>
      pm25_roll24_mean (create_rolling_features h)
        = np_mean (rev (take (min 24 (length h)) (rev h))) \<and>
      (1 < length h \<longrightarrow>
         pm25_roll24_std (create_rolling_features h)
           = np_std (rev (take (min 24 (length h)) (rev h)))) \<and>
      (length h = 1 \<longrightarrow> pm25_roll24_std (create_rolling_features h) = Fin 0)) \<and>
   pm25_roll24_mean (create_rolling_features []) = NaN \<and>
   pm25_roll24_std (create_rolling_features []) = NaN"
proof -
  have win: "h \<noteq> [] \<Longrightarrow>
      slice_from_end (min 24 (length h)) h = rev (take (min 24 (length h)) (rev h))"
    by (simp add: slice_from_end_def take_rev min_def)
  show ?thesis
    by (auto simp: create_rolling_features_def Let_def win)
qed

theorem rolling_features_window_witness:
  "pm25_roll24_mean (create_rolling_features [Fin 1, Fin 3]) = Fin 2 \<and>
   pm25_roll24_std (create_rolling_features [Fin 1, Fin 3]) = Fin 1 \<and>
   pm25_roll24_std (create_rolling_features [NaN]) = Fin 0"
proof (intro conjI)
  note main = rolling_features_window [of "[Fin 1, Fin 3]"]
  have "pm25_roll24_mean (create_rolling_features [Fin 1, Fin 3])
        = np_mean (rev (take (min 24 (length [Fin 1, Fin 3])) (rev [Fin 1, Fin 3])))"
    by (rule main [THEN conjunct1, rule_format, THEN conjunct1]) simp
  then show "pm25_roll24_mean (create_rolling_features [Fin 1, Fin 3]) = Fin 2"
    by (simp add: np_mean_def fl_sum_def)
  have "pm25_roll24_std (create_rolling_features [Fin 1, Fin 3])
        = np_std (rev (take (min 24 (length [Fin 1, Fin 3])) (rev [Fin 1, Fin 3])))"
    by (rule main [THEN conjunct1, rule_format, THEN conjunct2, THEN conjunct1, rule_format])
       simp_all
  then show "pm25_roll24_std (create_rolling_features [Fin 1, Fin 3]) = Fin 1"
    by (simp add: np_std_def np_mean_def fl_sum_def fl_sub_def)
  show "pm25_roll24_std (create_rolling_features [NaN]) = Fin 0"
    by (rule rolling_features_window [of "[NaN]", THEN conjunct1, rule_format,
          THEN conjunct2, THEN conjunct2, rule_format]) simp_all
qed

text \<open>
  C6. For a finite concentration \<open>p\<close> the label is Good iff \<open>p \<le> 12\<close>, Moderate iff
  \<open>12 < p \<le> 35.4\<close>, Unhealthy for Sensitive Groups iff \<open>35.4 < p \<le> 55.4\<close>, Unhealthy iff
  \<open>55.4 < p \<le> 150.4\<close>, Very Unhealthy iff \<open>150.4 < p \<le> 250.4\<close> and Hazardous iff
  \<open>p > 250.4\<close>; the upper bounds are inclusive: 12.0 is Good, 12.1 Moderate, 150.4
  Unhealthy and 150.5 Very Unhealthy.
\<close>

theorem pm25_to_aqi_category_bands:
  "(fst (pm25_to_aqi_category (Fin p)) = ''Good'' \<longleftrightarrow> p \<le> 12) \<and>
   (fst (pm25_to_aqi_category (Fin p)) = ''Moderate'' \<longleftrightarrow> 12 < p \<and> p \<le> 35.4) \<and>
   (fst (pm25_to_aqi_category (Fin p)) = ''Unhealthy for Sensitive Groups''
      \<longleftrightarrow> 35.4 < p \<and> p \<le> 55.4) \<and>
   (fst (pm25_to_aqi_category (Fin p)) = ''Unhealthy'' \<longleftrightarrow> 55.4 < p \<and> p \<le> 150.4) \<and>
   (fst (pm25_to_aqi_category (Fin p)) = ''Very Unhealthy'' \<longleftrightarrow> 150.4 < p \<and> p \<le> 250.4) \<and>
   (fst (pm25_to_aqi_category (Fin p)) = ''Hazardous'' \<longleftrightarrow> 250.4 < p) \<and>
   fst (pm25_to_aqi_category (Fin 12.0)) = ''Good'' \<and>
   fst (pm25_to_aqi_category (Fin 12.1)) = ''Moderate'' \<and>
   fst (pm25_to_aqi_category (Fin 150.4)) = ''Unhealthy'' \<and>
   fst (pm25_to_aqi_category (Fin 150.5)) = ''Very Unhealthy''"
  by (simp add: pm25_to_aqi_category_def)

text \<open>
  C7. With a historical weather frame, \<^verbatim>\<open>HoursOfRain\<close> counts the values among its last
  24 precipitation entries that are at least 0.1, and \<^verbatim>\<open>HoursOfSnow\<close> likewise for
  snowfall; without one, each is 3 when the current row's value is strictly above 0.1 and
  0 otherwise. So 0.1 itself counts in the window and does not in the fallback.
\<close>

theorem precipitation_hours_rule:
  "HoursOfRain (add_weather_features df (Some hw))
     = int (length (filter (\<lambda>p. fl_ge p (Fin 0.1)) (map precipitation (rev (take 24 (rev hw)))))) \<and>
   HoursOfSnow (add_weather_features df (Some hw))
     = int (length (filter (\<lambda>p. fl_ge p (Fin 0.1)) (map snowfall (rev (take 24 (rev hw)))))) \<and>
   HoursOfRain (add_weather_features df None)
     = (if fl_gt (precipitation df) (Fin 0.1) then 3 else 0) \<and>
   HoursOfSnow (add_weather_features df None)
     = (if fl_gt (snowfall df) (Fin 0.1) then 3 else 0) \<and>
   calculate_hours_of_precipitation [Fin 0.1, Fin 0.09, Fin 5, NaN] = 2 \<and>
   HoursOfRain (add_weather_features (df\<lparr>precipitation := Fin 0.1\<rparr>) None) = 0"
  by (simp add: add_weather_features_def Let_def tail_def take_rev
      calculate_hours_of_precipitation_def fl_ge_def fl_gt_def split: prod.splits)

text \<open>
  C8. With or without a historical weather frame, the rolling precipitation columns equal
  the plain ones.
\<close>

theorem rolling_precipitation_equals_plain:
  "HoursOfRain_rolling (add_weather_features df hw) = HoursOfRain (add_weather_features df hw) \<and>
   HoursOfSnow_rolling (add_weather_features df hw) = HoursOfSnow (add_weather_features df hw)"
  by (simp add: add_weather_features_def Let_def split: prod.splits option.splits)

text \<open>
  C9. For a finite speed \<open>s\<close> and direction \<open>d\<close> in degrees, the components are
  \<open>U = - s sin (d \<pi> / 180)\<close> and \<open>V = - s cos (d \<pi> / 180)\<close>; speed 10 from 0 degrees
  gives \<open>(0, -10)\<close>, from 90 degrees \<open>(-10, 0)\<close>.
\<close>

theorem wind_components:
  "calculate_wind_components (Fin s) (Fin d)
     = (Fin (- s * sin (d * pi / 180)), Fin (- s * cos (d * pi / 180))) \<and>
   calculate_wind_components (Fin 10) (Fin 0) = (Fin 0, Fin (- 10)) \<and>
   calculate_wind_components (Fin 10) (Fin 90) = (Fin (- 10), Fin 0)"
proof -
  have "(90::real) * pi / 180 = pi / 2" by simp
  then show ?thesis
    by (simp add: calculate_wind_components_def np_radians_def Let_def)
qed

text \<open>
  C10. On a frame with at least one row, \<^verbatim>\<open>generate_forecast_summary\<close> assigns the
  columns \<^verbatim>\<open>aqi_category\<close> and \<^verbatim>\<open>aqi_color\<close> to the frame at the caller's address: the
  rows stay, the frame differs from what it was when it had no such column, and no other
  frame of the store changes.
\<close>

theorem summary_adds_columns_in_place:
  assumes "df_rows (s a) \<noteq> []"
  shows "aqi_category (snd (generate_forecast_summary narrative s a) a)
           = Some (map (\<lambda>r. fst (pm25_to_aqi_category (PM25_pred r))) (df_rows (s a))) \<and>
         aqi_color (snd (generate_forecast_summary narrative s a) a)
           = Some (map (\<lambda>r. snd (pm25_to_aqi_category (PM25_pred r))) (df_rows (s a))) \<and>
         df_rows (snd (generate_forecast_summary narrative s a) a) = df_rows (s a) \<and>
         (aqi_category (s a) = None \<longrightarrow> snd (generate_forecast_summary narrative s a) a \<noteq> s a) \<and>
         (\<forall>b. b \<noteq> a \<longrightarrow> snd (generate_forecast_summary narrative s a) b = s b)"
proof -
  let ?s' = "snd (generate_forecast_summary narrative s a)"
  have cat: "aqi_category (?s' a)
           = Some (map (\<lambda>r. fst (pm25_to_aqi_category (PM25_pred r))) (df_rows (s a)))"
    using assms by (simp add: generate_forecast_summary_def Let_def comp_def)
  have col: "aqi_color (?s' a)
           = Some (map (\<lambda>r. snd (pm25_to_aqi_category (PM25_pred r))) (df_rows (s a)))"
    using assms by (simp add: generate_forecast_summary_def Let_def comp_def)
  have rows: "df_rows (?s' a) = df_rows (s a)"
    using assms by (simp add: generate_forecast_summary_def Let_def)
  have changed: "aqi_category (s a) = None \<longrightarrow> ?s' a \<noteq> s a"
  proof
    assume none: "aqi_category (s a) = None"
    show "?s' a \<noteq> s a"
    proof
      assume "?s' a = s a"
      then have "aqi_category (?s' a) = aqi_category (s a)" by simp
      with cat none show False by simp
    qed
  qed
  have others: "\<forall>b. b \<noteq> a \<longrightarrow> ?s' b = s b"
    by (simp add: generate_forecast_summary_def Let_def)
  from cat col rows changed others show ?thesis by blast
qed

theorem summary_adds_columns_in_place_witness:
  "df_rows (sample_store 0) \<noteq> [] \<and>
   aqi_category (sample_store 0) = None \<and>
   aqi_category (snd (generate_forecast_summary sample_narrative sample_store 0) 0)
     = Some [''Unhealthy for Sensitive Groups''] \<and>
   aqi_color (snd (generate_forecast_summary sample_narrative sample_store 0) 0)
     = Some [''#ff7e00''] \<and>
   snd (generate_forecast_summary sample_narrative sample_store 0) 0 \<noteq> sample_store 0"
proof -
  have ne: "df_rows (sample_store 0) \<noteq> []"
    by (simp add: sample_store_def DataFrame_def)
  have none: "aqi_category (sample_store 0) = None"
    by (simp add: sample_store_def DataFrame_def)
  note main = summary_adds_columns_in_place [where s = sample_store and a = 0
      and narrative = sample_narrative, OF ne]
  have "aqi_category (snd (generate_forecast_summary sample_narrative sample_store 0) 0)
     = Some (map (\<lambda>r. fst (pm25_to_aqi_category (PM25_pred r))) (df_rows (sample_store 0)))"
    by (rule main [THEN conjunct1])
  then have c: "aqi_category (snd (generate_forecast_summary sample_narrative sample_store 0) 0)
     = Some [''Unhealthy for Sensitive Groups'']"
    by (simp add: sample_store_def DataFrame_def pm25_to_aqi_category_def)
  have "aqi_color (snd (generate_forecast_summary sample_narrative sample_store 0) 0)
     = Some (map (\<lambda>r. snd (pm25_to_aqi_category (PM25_pred r))) (df_rows (sample_store 0)))"
    by (rule main [THEN conjunct2, THEN conjunct1])
  then have d: "aqi_color (snd (generate_forecast_summary sample_narrative sample_store 0) 0)
     = Some [''#ff7e00'']"
    by (simp add: sample_store_def DataFrame_def pm25_to_aqi_category_def)
  have e: "snd (generate_forecast_summary sample_narrative sample_store 0) 0 \<noteq> sample_store 0"
    by (rule main [THEN conjunct2, THEN conjunct2, THEN conjunct2, THEN conjunct1, rule_format])
       (rule none)
  from ne none c d e show ?thesis by blast
qed

end
